theory Spec2Isabelle
  imports Main "HOL-Library.Word"
begin

section \<open>The operating system as far as the block calls it\<close>

text \<open>
  \<^verbatim>\<open>BinaryFileSource\<close> talks to the kernel through five calls: \<^verbatim>\<open>open\<close> (inside
  \<^verbatim>\<open>openSourceFD\<close>), \<^verbatim>\<open>close\<close>, \<^verbatim>\<open>select\<close>, \<^verbatim>\<open>read\<close> and \<^verbatim>\<open>lseek\<close>. The kernel is a
  record: the files that exist, the table of open descriptors, the descriptor limit,
  \<^verbatim>\<open>errno\<close>, a clock in microseconds that advances while \<^verbatim>\<open>select\<close> sleeps, and the
  history of the calls made. Each call returns what POSIX says it returns and the
  kernel after the call. What a particular file does (it has data or not, it is ready
  or not, reading it fails) is part of the state, so a statement about every kernel
  state covers every behaviour the kernel can show to one call.
\<close>

type_synonym byte = "8 word"

record inode =
  contents :: "byte list"
  ready :: bool
  read_errno :: "int option"

record ofd =
  ofd_path :: string
  ofd_node :: inode
  ofd_offset :: nat

datatype syscall =
    Sys_open string int
  | Sys_close int int
  | Sys_select int "int list" int int
  | Sys_read int nat int
  | Sys_lseek int int int

record os =
  files :: "(string \<times> inode) list"
  fdtable :: "ofd option list"
  fd_limit :: nat
  errno :: int
  clock_us :: nat
  calls :: "syscall list"

definition ENOENT :: int where "ENOENT = 2"
definition EBADF :: int where "EBADF = 9"
definition EINVAL :: int where "EINVAL = 22"
definition EMFILE :: int where "EMFILE = 24"

text \<open>The description behind descriptor \<open>d\<close>, if \<open>d\<close> is open.\<close>

definition lookup_fd :: "os \<Rightarrow> int \<Rightarrow> ofd option" where
  "lookup_fd k d =
     (if 0 \<le> d \<and> nat d < length (fdtable k) then fdtable k ! nat d else None)"

text \<open>\<^verbatim>\<open>open\<close> hands out the lowest descriptor that is not open.\<close>

fun first_free :: "ofd option list \<Rightarrow> nat" where
  "first_free [] = 0"
| "first_free (None # t) = 0"
| "first_free (Some f # t) = Suc (first_free t)"

definition install :: "ofd option list \<Rightarrow> nat \<Rightarrow> ofd \<Rightarrow> ofd option list" where
  "install t n f = (if n < length t then t[n := Some f] else t @ [Some f])"

definition note_call :: "syscall \<Rightarrow> os \<Rightarrow> os" where
  "note_call c k = k\<lparr>calls := calls k @ [c]\<rparr>"

definition sys_open :: "os \<Rightarrow> string \<Rightarrow> int \<times> os" where
  "sys_open k p =
     (case map_of (files k) p of
        None \<Rightarrow> (- 1, note_call (Sys_open p (- 1)) (k\<lparr>errno := ENOENT\<rparr>))
      | Some nd \<Rightarrow>
          (let n = first_free (fdtable k) in
           if fd_limit k \<le> n
           then (- 1, note_call (Sys_open p (- 1)) (k\<lparr>errno := EMFILE\<rparr>))
           else (int n,
                 note_call (Sys_open p (int n))
                   (k\<lparr>fdtable := install (fdtable k) n
                        \<lparr>ofd_path = p, ofd_node = nd, ofd_offset = 0\<rparr>\<rparr>))))"

definition sys_close :: "os \<Rightarrow> int \<Rightarrow> int \<times> os" where
  "sys_close k d =
     (case lookup_fd k d of
        None \<Rightarrow> (- 1, note_call (Sys_close d (- 1)) (k\<lparr>errno := EBADF\<rparr>))
      | Some f \<Rightarrow>
          (0, note_call (Sys_close d 0) (k\<lparr>fdtable := (fdtable k)[nat d := None]\<rparr>)))"

text \<open>
  An \<^verbatim>\<open>fd_set\<close> is the list of the descriptors put into it. POSIX defines
  \<^verbatim>\<open>FD_SET(d, &set)\<close> only for \<open>0 \<le> d < FD_SETSIZE\<close>: outside this range the macro
  writes to a bit that is not the set's (the fortified C library aborts the program
  instead), so there the result is \<open>None\<close>, undefined. \<^verbatim>\<open>select\<close> looks only at the
  members below \<open>nfds\<close> (and not below 0): a member that is not open makes it fail with
  \<^verbatim>\<open>EBADF\<close>, otherwise it returns how many of them are ready, and when none is it
  sleeps for the timeout and returns 0. The timeout is \<^verbatim>\<open>tv_sec = 0\<close> and the given
  \<^verbatim>\<open>tv_usec\<close>; a negative \<open>nfds\<close> or timeout is \<^verbatim>\<open>EINVAL\<close>.
\<close>

definition FD_SETSIZE :: int where
  "FD_SETSIZE = 1024"

definition FD_ZERO :: "int list" where
  "FD_ZERO = []"

definition FD_SET :: "int \<Rightarrow> int list \<Rightarrow> int list option" where
  "FD_SET d s =
     (if d < 0 \<or> FD_SETSIZE \<le> d then None
      else Some (if d \<in> set s then s else d # s))"

definition fd_ready :: "os \<Rightarrow> int \<Rightarrow> bool" where
  "fd_ready k d = (case lookup_fd k d of None \<Rightarrow> False | Some f \<Rightarrow> ready (ofd_node f))"

definition sys_select :: "os \<Rightarrow> int \<Rightarrow> int list \<Rightarrow> int \<Rightarrow> int \<times> os" where
  "sys_select k nfds rset tv_usec =
     (if nfds < 0 \<or> tv_usec < 0
      then (- 1, note_call (Sys_select nfds rset tv_usec (- 1)) (k\<lparr>errno := EINVAL\<rparr>))
      else
        (let watched = filter (\<lambda>d. 0 \<le> d \<and> d < nfds) rset in
         if list_ex (\<lambda>d. lookup_fd k d = None) watched
         then (- 1, note_call (Sys_select nfds rset tv_usec (- 1)) (k\<lparr>errno := EBADF\<rparr>))
         else
           (let n = length (filter (fd_ready k) watched) in
            if n = 0
            then (0, note_call (Sys_select nfds rset tv_usec 0)
                       (k\<lparr>clock_us := clock_us k + nat tv_usec\<rparr>))
            else (int n, note_call (Sys_select nfds rset tv_usec (int n)) k))))"

text \<open>
  \<^verbatim>\<open>read\<close> returns the count, the bytes it stored at the start of the buffer, and the
  kernel with the file position advanced.
\<close>

definition sys_read :: "os \<Rightarrow> int \<Rightarrow> nat \<Rightarrow> int \<times> byte list \<times> os" where
  "sys_read k d count =
     (case lookup_fd k d of
        None \<Rightarrow> (- 1, [], note_call (Sys_read d count (- 1)) (k\<lparr>errno := EBADF\<rparr>))
      | Some f \<Rightarrow>
          (case read_errno (ofd_node f) of
             Some e \<Rightarrow> (- 1, [], note_call (Sys_read d count (- 1)) (k\<lparr>errno := e\<rparr>))
           | None \<Rightarrow>
               (let bytes = take count (drop (ofd_offset f) (contents (ofd_node f)))
                in (int (length bytes), bytes,
                    note_call (Sys_read d count (int (length bytes)))
                      (k\<lparr>fdtable := (fdtable k)
                           [nat d := Some (f\<lparr>ofd_offset := ofd_offset f + length bytes\<rparr>)]\<rparr>)))))"

text \<open>Only \<^verbatim>\<open>lseek(fd, 0, SEEK_SET)\<close> is ever called, so the offset is a natural number.\<close>

definition sys_lseek_set :: "os \<Rightarrow> int \<Rightarrow> nat \<Rightarrow> int \<times> os" where
  "sys_lseek_set k d off =
     (case lookup_fd k d of
        None \<Rightarrow> (- 1, note_call (Sys_lseek d (int off) (- 1)) (k\<lparr>errno := EBADF\<rparr>))
      | Some f \<Rightarrow>
          (int off, note_call (Sys_lseek d (int off) (int off))
             (k\<lparr>fdtable := (fdtable k)[nat d := Some (f\<lparr>ofd_offset := off\<rparr>)]\<rparr>)))"

definition strerror :: "int \<Rightarrow> string" where
  "strerror e =
     (if e = 2 then ''No such file or directory''
      else if e = 5 then ''Input/output error''
      else if e = 9 then ''Bad file descriptor''
      else if e = 21 then ''Is a directory''
      else if e = 22 then ''Invalid argument''
      else if e = 24 then ''Too many open files''
      else ''Unknown error'')"

section \<open>The framework as far as the block calls it\<close>

text \<open>
  Output port 0 has the element size of the \<^verbatim>\<open>dtype\<close> given to the constructor, the
  buffer of this work cycle, and the bytes committed so far: \<^verbatim>\<open>produce(n)\<close> commits
  the first \<open>n\<close> elements of the buffer. The scheduler sees the \<^verbatim>\<open>yield()\<close> and
  \<^verbatim>\<open>produce(n)\<close> calls in order, the logger the messages, and the scheduler sets
  \<^verbatim>\<open>workInfo().maxTimeoutNs\<close>.
\<close>

record output_port =
  dtype_size :: nat
  buffer :: "byte list"
  stream :: "byte list"

datatype port_call = Yield | Produce nat

datatype log_arg = Str string | Num int

datatype log_entry = Log_error string string "log_arg list"

record world =
  kernel :: os
  out0 :: output_port
  sched :: "port_call list"
  logger :: "log_entry list"
  maxTimeoutNs :: int

datatype exn = FileException string string

datatype signal = Returns | Throws exn | Traps

record block =
  m_fd :: int
  m_path :: string
  m_rewind :: bool

type_synonym outcome = "signal \<times> block \<times> world"

definition yield :: "block \<Rightarrow> world \<Rightarrow> outcome" where
  "yield b w = (Returns, b, w\<lparr>sched := sched w @ [Yield]\<rparr>)"

definition produce :: "nat \<Rightarrow> world \<Rightarrow> world" where
  "produce n w =
     w\<lparr>sched := sched w @ [Produce n],
       out0 := (out0 w)\<lparr>stream := stream (out0 w)
                  @ take (n * dtype_size (out0 w)) (buffer (out0 w))\<rparr>\<rparr>"

definition poco_error :: "string \<Rightarrow> string \<Rightarrow> log_arg list \<Rightarrow> world \<Rightarrow> world" where
  "poco_error name fmt args w = w\<lparr>logger := logger w @ [Log_error name fmt args]\<rparr>"

text \<open>C++ integer division truncates towards zero.\<close>

definition cdiv :: "int \<Rightarrow> int \<Rightarrow> int" where
  "cdiv a b = sgn a * sgn b * (\<bar>a\<bar> div \<bar>b\<bar>)"

section \<open>BinaryFileSource\<close>

text \<open>
  Modelled from the spec: \<^verbatim>\<open>openSourceFD\<close> of \<^verbatim>\<open>FileDescriptor.hpp\<close>, which is not among
  the sources. The spec says that \<^verbatim>\<open>activate\<close> "attempts to open the path for reading";
  the block's own log message calls the result what \<^verbatim>\<open>open\<close> returned. So it is
  \<^verbatim>\<open>open(path, O_RDONLY)\<close>: a descriptor, or \<open>-1\<close> with \<^verbatim>\<open>errno\<close> set.
\<close>

definition openSourceFD :: "os \<Rightarrow> string \<Rightarrow> int \<times> os" where
  "openSourceFD k p = sys_open k p"

text \<open>The constructor: \<^verbatim>\<open>_fd(-1)\<close>, \<^verbatim>\<open>_rewind(false)\<close>, and the empty \<^verbatim>\<open>std::string\<close>.\<close>

definition BinaryFileSource :: block where
  "BinaryFileSource = \<lparr>m_fd = - 1, m_path = [], m_rewind = False\<rparr>"

definition setAutoRewind :: "bool \<Rightarrow> block \<Rightarrow> world \<Rightarrow> outcome" where
  "setAutoRewind r b w = (Returns, b\<lparr>m_rewind := r\<rparr>, w)"

definition activate :: "block \<Rightarrow> world \<Rightarrow> outcome" where
  "activate b w =
     (if m_path b = []
      then (Throws (FileException ''BinaryFileSource'' ''empty file path''), b, w)
      else
        (case openSourceFD (kernel w) (m_path b) of
           (d, k') \<Rightarrow>
             (let b' = b\<lparr>m_fd := d\<rparr>; w' = w\<lparr>kernel := k'\<rparr> in
              if d < 0
              then (Returns, b',
                    poco_error ''BinaryFileSource'' ''open(%s) returned %d -- %s(%d)''
                      [Str (m_path b'), Num (m_fd b'), Str (strerror (errno k')), Num (errno k')]
                      w')
              else (Returns, b', w'))))"

definition deactivate :: "block \<Rightarrow> world \<Rightarrow> outcome" where
  "deactivate b w =
     (case sys_close (kernel w) (m_fd b) of
        (r, k') \<Rightarrow> (Returns, b\<lparr>m_fd := - 1\<rparr>, w\<lparr>kernel := k'\<rparr>))"

text \<open>Sequencing: the second call runs only when the first one returned.\<close>

definition and_then :: "outcome \<Rightarrow> (block \<Rightarrow> world \<Rightarrow> outcome) \<Rightarrow> outcome" where
  "and_then r g = (case r of (Returns, b, w) \<Rightarrow> g b w | (s, b, w) \<Rightarrow> (s, b, w))"

definition setFilePath :: "string \<Rightarrow> block \<Rightarrow> world \<Rightarrow> outcome" where
  "setFilePath p b w =
     (let b1 = b\<lparr>m_path := p\<rparr> in
      if m_fd b1 \<noteq> - 1
      then and_then (deactivate b1 w) activate
      else (Returns, b1, w))"

text \<open>
  \<^verbatim>\<open>work\<close> in the build with \<^verbatim>\<open>select\<close> (the \<^verbatim>\<open>#else\<close> branch, every compiler but MSVC).
  There is no test of \<^verbatim>\<open>_fd\<close> before \<^verbatim>\<open>FD_SET(_fd, &rset)\<close>: where the macro is undefined
  the cycle ends there (\<open>Traps\<close>), with nothing done yet. The element count is
  \<^verbatim>\<open>size_t(r)/out0->dtype().size()\<close>: a division by zero when the element size is zero,
  which stops the program too.
\<close>

definition work :: "block \<Rightarrow> world \<Rightarrow> outcome" where
  "work b w =
     (let tv_usec = cdiv (maxTimeoutNs w) 1000 in
      case FD_SET (m_fd b) FD_ZERO of
        None \<Rightarrow> (Traps, b, w)
      | Some rset \<Rightarrow>
         (case sys_select (kernel w) (m_fd b + 1) rset tv_usec of
            (n, k1) \<Rightarrow>
              (let w1 = w\<lparr>kernel := k1\<rparr> in
               if n \<le> 0 then yield b w1
               else
                 (case sys_read k1 (m_fd b) (length (buffer (out0 w1))) of
                    (r, bytes, k2) \<Rightarrow>
                      (let w2 = w1\<lparr>kernel := k2,
                                  out0 := (out0 w1)\<lparr>buffer := bytes
                                     @ drop (length bytes) (buffer (out0 w1))\<rparr>\<rparr>;
                           w3 = (if r = 0 \<and> m_rewind b
                                 then w2\<lparr>kernel := snd (sys_lseek_set (kernel w2) (m_fd b) 0)\<rparr>
                                 else w2)
                       in if 0 \<le> r
                          then (if dtype_size (out0 w3) = 0 then (Traps, b, w3)
                                else (Returns, b, produce (nat r div dtype_size (out0 w3)) w3))
                          else (Returns, b,
                                poco_error ''BinaryFileSource'' ''read() returned %d -- %s(%d)''
                                  [Num r, Str (strerror (errno (kernel w3))),
                                   Num (errno (kernel w3))]
                                  w3))))))"

section \<open>Concrete inputs\<close>

text \<open>
  A kernel with three files: a regular file of ten bytes, a pipe nobody writes to (never
  ready), and a directory (reading it fails with \<^verbatim>\<open>EISDIR\<close>, 21). The world around it
  has an output port of 4-byte elements with a 12-byte buffer and a timeout of 2500 ns.
\<close>

definition data_node :: inode where
  "data_node = \<lparr>contents = [1, 2, 3, 4, 5, 6, 7, 8, 9, 10], ready = True, read_errno = None\<rparr>"

definition quiet_node :: inode where
  "quiet_node = \<lparr>contents = [], ready = False, read_errno = None\<rparr>"

definition dir_node :: inode where
  "dir_node = \<lparr>contents = [], ready = True, read_errno = Some 21\<rparr>"

definition test_os :: "ofd option list \<Rightarrow> os" where
  "test_os t =
     \<lparr>files = [(''data.bin'', data_node), (''pipe'', quiet_node), (''dir'', dir_node)],
      fdtable = t, fd_limit = 4, errno = 0, clock_us = 0, calls = []\<rparr>"

definition test_world :: "ofd option list \<Rightarrow> world" where
  "test_world t =
     \<lparr>kernel = test_os t,
      out0 = \<lparr>dtype_size = 4, buffer = [0, 0, 0, 0, 0, 0, 0, 0, 0, 0, 0, 0], stream = []\<rparr>,
      sched = [], logger = [], maxTimeoutNs = 2500\<rparr>"

definition opened :: "string \<Rightarrow> inode \<Rightarrow> nat \<Rightarrow> ofd option" where
  "opened p nd off = Some \<lparr>ofd_path = p, ofd_node = nd, ofd_offset = off\<rparr>"

definition test_block :: "int \<Rightarrow> string \<Rightarrow> bool \<Rightarrow> block" where
  "test_block d p rw = \<lparr>m_fd = d, m_path = p, m_rewind = rw\<rparr>"

section \<open>Facts about the system calls\<close>

lemmas test_defs =
  data_node_def quiet_node_def dir_node_def test_os_def test_world_def opened_def
  test_block_def BinaryFileSource_def

lemmas sys_defs =
  sys_open_def sys_close_def sys_select_def sys_read_def sys_lseek_set_def openSourceFD_def
  lookup_fd_def install_def note_call_def FD_SET_def FD_ZERO_def FD_SETSIZE_def fd_ready_def
  cdiv_def
  ENOENT_def EBADF_def EINVAL_def EMFILE_def Let_def

lemma triple_collapse: "x = (fst x, fst (snd x), snd (snd x))"
  by simp

lemma lookup_fd_cong: "fdtable k' = fdtable k \<Longrightarrow> lookup_fd k' d = lookup_fd k d"
  by (simp add: lookup_fd_def)

lemma lookup_fd_negative: "d < 0 \<Longrightarrow> lookup_fd k d = None"
  by (simp add: lookup_fd_def)

lemma lookup_fd_update:
  "lookup_fd k d = Some f \<Longrightarrow> fdtable k' = (fdtable k)[nat d := x] \<Longrightarrow> lookup_fd k' d = x"
  by (simp add: lookup_fd_def split: if_splits)

lemma lookup_fd_update_id:
  "lookup_fd k d = Some f \<Longrightarrow> (fdtable k)[nat d := Some f] = fdtable k"
  by (simp add: lookup_fd_def list_update_same_conv split: if_splits)

subsection \<open>select\<close>

lemma sys_select_frame:
  "sys_select k nfds rset tv = (n, k') \<Longrightarrow>
     fdtable k' = fdtable k \<and> files k' = files k \<and> fd_limit k' = fd_limit k
     \<and> calls k' = calls k @ [Sys_select nfds rset tv n]
     \<and> clock_us k \<le> clock_us k' \<and> clock_us k' \<le> clock_us k + nat tv"
  by (auto simp: sys_select_def note_call_def Let_def split: if_splits)

lemma FD_SET_negative: "d < 0 \<Longrightarrow> FD_SET d s = None"
  by (simp add: FD_SET_def)

lemma FD_SET_Some:
  "FD_SET d FD_ZERO = Some rset \<Longrightarrow> rset = [d] \<and> 0 \<le> d \<and> d < FD_SETSIZE"
  by (auto simp: FD_SET_def FD_ZERO_def split: if_splits)

lemma sys_select_nothing_to_watch:
  "0 \<le> tv \<Longrightarrow>
     sys_select k 0 rset tv
       = (0, k\<lparr>clock_us := clock_us k + nat tv, calls := calls k @ [Sys_select 0 rset tv 0]\<rparr>)"
  by (simp add: sys_select_def note_call_def)

lemma sys_select_positive:
  "sys_select k (d + 1) [d] tv = (n, k') \<Longrightarrow> 0 < n \<Longrightarrow>
     0 \<le> d \<and> n = 1 \<and> (\<exists>f. lookup_fd k d = Some f \<and> ready (ofd_node f))"
  by (auto simp: sys_select_def note_call_def Let_def fd_ready_def
           split: if_splits option.splits)

subsection \<open>read and lseek\<close>

lemma sys_read_nonneg:
  "sys_read k d c = (r, bytes, k2) \<Longrightarrow> 0 \<le> r \<Longrightarrow>
     length bytes = nat r \<and> nat r \<le> c \<and> errno k2 = errno k \<and> files k2 = files k
     \<and> clock_us k2 = clock_us k
     \<and> calls k2 = calls k @ [Sys_read d c r]
     \<and> (\<exists>f. lookup_fd k d = Some f \<and> read_errno (ofd_node f) = None
            \<and> bytes = take c (drop (ofd_offset f) (contents (ofd_node f)))
            \<and> fdtable k2 = (fdtable k)[nat d := Some (f\<lparr>ofd_offset := ofd_offset f + nat r\<rparr>)])"
  by (auto simp: sys_read_def note_call_def Let_def split: option.splits)

lemma sys_read_neg:
  "sys_read k d c = (r, bytes, k2) \<Longrightarrow> r < 0 \<Longrightarrow>
     r = - 1 \<and> bytes = [] \<and> fdtable k2 = fdtable k \<and> files k2 = files k
     \<and> clock_us k2 = clock_us k
     \<and> calls k2 = calls k @ [Sys_read d c r]
     \<and> (case lookup_fd k d of None \<Rightarrow> errno k2 = EBADF
         | Some f \<Rightarrow> read_errno (ofd_node f) = Some (errno k2))"
  by (auto simp: sys_read_def note_call_def Let_def split: option.splits)

lemma sys_read_zero:
  assumes rd: "sys_read k d c = (0, bytes, k2)"
  shows "\<exists>f. lookup_fd k d = Some f \<and> bytes = [] \<and> fdtable k2 = fdtable k
     \<and> lookup_fd k2 d = Some f
     \<and> (c = 0 \<or> length (contents (ofd_node f)) \<le> ofd_offset f)
     \<and> calls k2 = calls k @ [Sys_read d c 0] \<and> errno k2 = errno k \<and> files k2 = files k"
proof (cases "lookup_fd k d")
  case None
  with rd show ?thesis by (simp add: sys_read_def)
next
  case (Some f)
  show ?thesis
  proof (cases "read_errno (ofd_node f)")
    case (Some e)
    with rd \<open>lookup_fd k d = Some f\<close> show ?thesis by (simp add: sys_read_def)
  next
    case None
    define bs where "bs = take c (drop (ofd_offset f) (contents (ofd_node f)))"
    define K where "K = note_call (Sys_read d c (int (length bs)))
              (k\<lparr>fdtable := (fdtable k)[nat d := Some (f\<lparr>ofd_offset := ofd_offset f + length bs\<rparr>)]\<rparr>)"
    have run: "sys_read k d c = (int (length bs), bs, K)"
      using Some None by (simp add: sys_read_def Let_def bs_def K_def)
    have eq: "(int (length bs), bs, K) = (0, bytes, k2)"
      using run [symmetric] rd by (rule trans)
    from eq have len: "length bs = 0" by simp
    from eq have b: "bytes = bs" by blast
    from eq have k2: "k2 = K" by blast
    from len have eof: "c = 0 \<or> length (contents (ofd_node f)) \<le> ofd_offset f"
      by (auto simp: bs_def)
    from k2 len have tab: "fdtable k2 = fdtable k"
      by (simp add: K_def note_call_def lookup_fd_update_id [OF Some])
    from k2 len have rest: "calls k2 = calls k @ [Sys_read d c 0]" "errno k2 = errno k" "files k2 = files k"
      by (simp_all add: K_def note_call_def)
    from len b have "bytes = []" by simp
    with Some tab eof rest lookup_fd_cong [OF tab, of d] show ?thesis
      by simp
  qed
qed

lemma sys_read_frame:
  "sys_read k d c = (r, bytes, k2) \<Longrightarrow>
     files k2 = files k \<and> fd_limit k2 = fd_limit k
     \<and> (fdtable k2 = fdtable k
         \<or> (\<exists>f off. lookup_fd k d = Some f
               \<and> fdtable k2 = (fdtable k)[nat d := Some (f\<lparr>ofd_offset := off\<rparr>)]))"
  by (auto simp: sys_read_def note_call_def Let_def split: option.splits)

lemma sys_lseek_set_open:
  "lookup_fd k d = Some f \<Longrightarrow>
     sys_lseek_set k d off =
       (int off, k\<lparr>fdtable := (fdtable k)[nat d := Some (f\<lparr>ofd_offset := off\<rparr>)],
                   calls := calls k @ [Sys_lseek d (int off) (int off)]\<rparr>)"
  by (simp add: sys_lseek_set_def note_call_def)

subsection \<open>open and close\<close>

lemma first_free_le: "first_free t \<le> length t"
  by (induction t rule: first_free.induct) auto

lemma first_free_None: "first_free t < length t \<Longrightarrow> t ! first_free t = None"
  by (induction t rule: first_free.induct) auto

lemma install_length: "length t \<le> length (install t n f)"
  by (simp add: install_def)

lemma install_new: "n = first_free t \<Longrightarrow> n < length (install t n f) \<and> install t n f ! n = Some f"
  using first_free_le [of t] by (auto simp: install_def nth_append)

lemma install_old: "i < length t \<Longrightarrow> t ! i = Some g \<Longrightarrow> install t (first_free t) f ! i = Some g"
  using first_free_None [of t] by (auto simp: install_def nth_append nth_list_update)

lemma sys_open_fail:
  "sys_open k p = (d, k') \<Longrightarrow> d < 0 \<Longrightarrow>
     d = - 1 \<and> fdtable k' = fdtable k \<and> files k' = files k
     \<and> calls k' = calls k @ [Sys_open p (- 1)]"
  by (auto simp: sys_open_def note_call_def Let_def split: option.splits if_splits)

lemma sys_open_ok:
  "sys_open k p = (d, k') \<Longrightarrow> 0 \<le> d \<Longrightarrow>
     (\<exists>nd. map_of (files k) p = Some nd
        \<and> lookup_fd k' d = Some \<lparr>ofd_path = p, ofd_node = nd, ofd_offset = 0\<rparr>)
     \<and> lookup_fd k d = None
     \<and> files k' = files k \<and> errno k' = errno k
     \<and> calls k' = calls k @ [Sys_open p d]"
  using first_free_None [of "fdtable k"]
  by (auto simp: sys_open_def note_call_def Let_def lookup_fd_def install_new
           split: option.splits if_splits)

lemma sys_open_keeps:
  "sys_open k p = (d, k') \<Longrightarrow> lookup_fd k d' = Some f \<Longrightarrow> lookup_fd k' d' = Some f"
  using install_length [of "fdtable k"]
  by (auto simp: sys_open_def note_call_def Let_def lookup_fd_def install_old
           split: option.splits if_splits intro: less_le_trans)

lemma sys_close_closed:
  "lookup_fd k d = None \<Longrightarrow>
     sys_close k d = (- 1, k\<lparr>errno := EBADF, calls := calls k @ [Sys_close d (- 1)]\<rparr>)"
  by (simp add: sys_close_def note_call_def)

lemma sys_close_frame:
  "sys_close k d = (r, k') \<Longrightarrow>
     files k' = files k \<and> fd_limit k' = fd_limit k \<and> clock_us k' = clock_us k
     \<and> calls k' = calls k @ [Sys_close d r] \<and> lookup_fd k' d = None"
  by (auto simp: sys_close_def note_call_def lookup_fd_def split: option.splits if_splits)

lemma sys_close_other:
  "sys_close k d = (r, k') \<Longrightarrow> d' \<noteq> d \<Longrightarrow> lookup_fd k' d' = lookup_fd k d'"
  by (auto simp: sys_close_def note_call_def lookup_fd_def nat_eq_iff
           split: option.splits if_splits)

section \<open>The block, one path at a time\<close>

lemma work_undefined:
  "FD_SET (m_fd b) FD_ZERO = None \<Longrightarrow> work b w = (Traps, b, w)"
  by (simp add: work_def)

lemma work_yields:
  "FD_SET (m_fd b) FD_ZERO = Some rset \<Longrightarrow>
   sys_select (kernel w) (m_fd b + 1) rset (cdiv (maxTimeoutNs w) 1000) = (n, k')
   \<Longrightarrow> n \<le> 0 \<Longrightarrow>
   work b w = (Returns, b, w\<lparr>kernel := k', sched := sched w @ [Yield]\<rparr>)"
  by (simp add: work_def Let_def yield_def)

lemma work_read:
  "FD_SET (m_fd b) FD_ZERO = Some rset \<Longrightarrow>
   sys_select (kernel w) (m_fd b + 1) rset (cdiv (maxTimeoutNs w) 1000) = (n, k1)
   \<Longrightarrow> 0 < n \<Longrightarrow> sys_read k1 (m_fd b) (length (buffer (out0 w))) = (r, bytes, k2) \<Longrightarrow>
   work b w =
     (let w2 = w\<lparr>kernel := k2,
                 out0 := (out0 w)\<lparr>buffer := bytes @ drop (length bytes) (buffer (out0 w))\<rparr>\<rparr>;
          w3 = (if r = 0 \<and> m_rewind b
                then w2\<lparr>kernel := snd (sys_lseek_set k2 (m_fd b) 0)\<rparr> else w2)
      in if 0 \<le> r
         then (if dtype_size (out0 w) = 0 then (Traps, b, w3)
               else (Returns, b, produce (nat r div dtype_size (out0 w)) w3))
         else (Returns, b,
               poco_error ''BinaryFileSource'' ''read() returned %d -- %s(%d)''
                 [Num r, Str (strerror (errno (kernel w3))), Num (errno (kernel w3))] w3))"
  by (simp add: work_def Let_def)

lemma activate_empty:
  "m_path b = [] \<Longrightarrow>
     activate b w = (Throws (FileException ''BinaryFileSource'' ''empty file path''), b, w)"
  by (simp add: activate_def)

lemma activate_open_failed:
  "m_path b \<noteq> [] \<Longrightarrow> openSourceFD (kernel w) (m_path b) = (d, k') \<Longrightarrow> d < 0 \<Longrightarrow>
     activate b w =
       (Returns, b\<lparr>m_fd := - 1\<rparr>,
        w\<lparr>kernel := k',
          logger := logger w
            @ [Log_error ''BinaryFileSource'' ''open(%s) returned %d -- %s(%d)''
                 [Str (m_path b), Num (- 1), Str (strerror (errno k')), Num (errno k')]]\<rparr>)"
  using sys_open_fail [of "kernel w" "m_path b" d k']
  by (simp add: activate_def openSourceFD_def poco_error_def Let_def)

lemma activate_opened:
  "m_path b \<noteq> [] \<Longrightarrow> openSourceFD (kernel w) (m_path b) = (d, k') \<Longrightarrow> 0 \<le> d \<Longrightarrow>
     activate b w = (Returns, b\<lparr>m_fd := d\<rparr>, w\<lparr>kernel := k'\<rparr>)"
  by (simp add: activate_def Let_def)

lemma deactivate_eq:
  "deactivate b w = (Returns, b\<lparr>m_fd := - 1\<rparr>, w\<lparr>kernel := snd (sys_close (kernel w) (m_fd b))\<rparr>)"
  by (simp add: deactivate_def split: prod.splits)

lemma setFilePath_open:
  "m_fd b \<noteq> - 1 \<Longrightarrow>
     setFilePath p b w =
       activate (b\<lparr>m_path := p, m_fd := - 1\<rparr>)
                (w\<lparr>kernel := snd (sys_close (kernel w) (m_fd b))\<rparr>)"
  by (simp add: setFilePath_def Let_def deactivate_eq and_then_def)

section \<open>The work cycle\<close>

text \<open>
  C1. A work cycle on an invalid handle (\<^verbatim>\<open>_fd\<close> negative: closed, or the open failed)
  should do nothing productive and yield. \<^verbatim>\<open>work\<close> does not test the handle, though
  \<^verbatim>\<open>setFilePath\<close> does: with \<^verbatim>\<open>_fd = -1\<close>, as the constructor or a failed
  \<^verbatim>\<open>activate\<close> leaves it, the cycle runs \<^verbatim>\<open>FD_SET(-1, &rset)\<close>, which is undefined, and
  never reaches \<^verbatim>\<open>yield\<close>. Where the macro does no harm, the \<^verbatim>\<open>select\<close> that follows
  has \<open>nfds = 0\<close>, nothing to watch, and sleeps for the whole timeout before it returns
  0: the last equation, with 2 microseconds for a timeout of 2500 ns.
\<close>

theorem work_invalid_handle_undefined:
  "m_fd BinaryFileSource = - 1
   \<and> FD_SET (m_fd BinaryFileSource) FD_ZERO = None
   \<and> work BinaryFileSource (test_world []) = (Traps, BinaryFileSource, test_world [])
   \<and> sched (snd (snd (work BinaryFileSource (test_world [])))) = []
   \<and> and_then (activate (test_block (- 1) ''nofile'' False) (test_world [])) work
       = (Traps, test_block (- 1) ''nofile'' False,
          (test_world [])
            \<lparr>kernel := (test_os [])\<lparr>errno := 2, calls := [Sys_open ''nofile'' (- 1)]\<rparr>,
              logger := [Log_error ''BinaryFileSource'' ''open(%s) returned %d -- %s(%d)''
                           [Str ''nofile'', Num (- 1), Str ''No such file or directory'',
                            Num 2]]\<rparr>)
   \<and> sys_select (kernel (test_world [])) (m_fd BinaryFileSource + 1) [m_fd BinaryFileSource]
         (cdiv (maxTimeoutNs (test_world [])) 1000)
       = (0, (test_os [])\<lparr>clock_us := 2, calls := [Sys_select 0 [- 1] 2 0]\<rparr>)"
proof -
  have fd: "m_fd BinaryFileSource = - 1"
    by (simp add: BinaryFileSource_def)
  then have undef: "FD_SET (m_fd BinaryFileSource) FD_ZERO = None"
    by (simp add: FD_SET_negative)
  note run = work_undefined [OF undef, of "test_world []"]
  have act: "activate (test_block (- 1) ''nofile'' False) (test_world [])
       = (Returns, test_block (- 1) ''nofile'' False,
          (test_world [])
            \<lparr>kernel := (test_os [])\<lparr>errno := 2, calls := [Sys_open ''nofile'' (- 1)]\<rparr>,
              logger := [Log_error ''BinaryFileSource'' ''open(%s) returned %d -- %s(%d)''
                           [Str ''nofile'', Num (- 1), Str ''No such file or directory'',
                            Num 2]]\<rparr>)"
    by (simp add: activate_def poco_error_def strerror_def sys_defs test_defs)
  have "FD_SET (m_fd (test_block (- 1) ''nofile'' False)) FD_ZERO = None"
    by (simp add: FD_SET_negative test_block_def)
  from work_undefined [OF this] act
  have after: "and_then (activate (test_block (- 1) ''nofile'' False) (test_world [])) work
       = (Traps, test_block (- 1) ''nofile'' False,
          (test_world [])
            \<lparr>kernel := (test_os [])\<lparr>errno := 2, calls := [Sys_open ''nofile'' (- 1)]\<rparr>,
              logger := [Log_error ''BinaryFileSource'' ''open(%s) returned %d -- %s(%d)''
                           [Str ''nofile'', Num (- 1), Str ''No such file or directory'',
                            Num 2]]\<rparr>)"
    by (simp add: and_then_def)
  have sleep: "sys_select (kernel (test_world [])) (m_fd BinaryFileSource + 1)
         [m_fd BinaryFileSource] (cdiv (maxTimeoutNs (test_world [])) 1000)
       = (0, (test_os [])\<lparr>clock_us := 2, calls := [Sys_select 0 [- 1] 2 0]\<rparr>)"
    by (simp add: fd sys_select_nothing_to_watch cdiv_def test_defs)
  have quiet: "sched (test_world []) = []" by (simp add: test_defs)
  from fd undef run after sleep quiet show ?thesis by simp
qed

text \<open>
  C2. When the bounded wait expires with nothing ready (\<^verbatim>\<open>select\<close> returns 0), the cycle
  calls \<^verbatim>\<open>yield\<close> and returns: nothing is produced, the output port is untouched, and
  nothing is logged.
\<close>

theorem work_timeout:
  assumes fs: "FD_SET (m_fd b) FD_ZERO = Some rset"
      and sel: "sys_select (kernel w) (m_fd b + 1) rset (cdiv (maxTimeoutNs w) 1000) = (0, k')"
  shows "work b w = (Returns, b, w\<lparr>kernel := k', sched := sched w @ [Yield]\<rparr>)
     \<and> logger (snd (snd (work b w))) = logger w
     \<and> out0 (snd (snd (work b w))) = out0 w
     \<and> sched (snd (snd (work b w))) = sched w @ [Yield]
     \<and> calls k' = calls (kernel w)
          @ [Sys_select (m_fd b + 1) rset (cdiv (maxTimeoutNs w) 1000) 0]"
  using work_yields [OF fs sel] sys_select_frame [OF sel] by simp

theorem work_timeout_witness:
  "FD_SET (m_fd (test_block 0 ''pipe'' False)) FD_ZERO = Some [0]
   \<and> sys_select (kernel (test_world [opened ''pipe'' quiet_node 0]))
      (m_fd (test_block 0 ''pipe'' False) + 1)
      [0]
      (cdiv (maxTimeoutNs (test_world [opened ''pipe'' quiet_node 0])) 1000)
     = (0, (test_os [opened ''pipe'' quiet_node 0])
             \<lparr>clock_us := 2, calls := [Sys_select 1 [0] 2 0]\<rparr>)
   \<and> work (test_block 0 ''pipe'' False) (test_world [opened ''pipe'' quiet_node 0])
       = (Returns, test_block 0 ''pipe'' False,
          (test_world [opened ''pipe'' quiet_node 0])
            \<lparr>kernel := (test_os [opened ''pipe'' quiet_node 0])
                          \<lparr>clock_us := 2, calls := [Sys_select 1 [0] 2 0]\<rparr>,
             sched := [Yield]\<rparr>)
   \<and> logger (snd (snd (work (test_block 0 ''pipe'' False)
                  (test_world [opened ''pipe'' quiet_node 0])))) = []"
proof -
  have fs: "FD_SET (m_fd (test_block 0 ''pipe'' False)) FD_ZERO = Some [0]"
    by (simp add: sys_defs test_defs)
  have h: "sys_select (kernel (test_world [opened ''pipe'' quiet_node 0]))
      (m_fd (test_block 0 ''pipe'' False) + 1)
      [0]
      (cdiv (maxTimeoutNs (test_world [opened ''pipe'' quiet_node 0])) 1000)
     = (0, (test_os [opened ''pipe'' quiet_node 0])
             \<lparr>clock_us := 2, calls := [Sys_select 1 [0] 2 0]\<rparr>)"
    by (simp add: sys_defs test_defs)
  from work_timeout [OF fs h] fs h show ?thesis
    by (simp add: test_defs)
qed

text \<open>
  C3. When the descriptor is ready and \<^verbatim>\<open>read\<close> returns \<open>N > 0\<close> bytes, the cycle calls
  \<^verbatim>\<open>produce(N / size)\<close> with integer division. The bytes committed to the stream are
  the first \<open>(N div size) * size\<close> bytes read, a whole number of elements; the
  remaining \<open>N mod size\<close> bytes are dropped, since the file position has moved past
  all \<open>N\<close> bytes. The element size is positive.
\<close>

theorem work_produce:
  assumes fs: "FD_SET (m_fd b) FD_ZERO = Some rset"
      and sel: "sys_select (kernel w) (m_fd b + 1) rset
                  (cdiv (maxTimeoutNs w) 1000) = (n, k1)"
      and n: "0 < n"
      and rd: "sys_read k1 (m_fd b) (length (buffer (out0 w))) = (r, bytes, k2)"
      and r: "0 < r"
      and sz: "0 < dtype_size (out0 w)"
  shows "\<exists>w' f. work b w = (Returns, b, w')
     \<and> sched w' = sched w @ [Produce (nat r div dtype_size (out0 w))]
     \<and> stream (out0 w') = stream (out0 w)
          @ take (nat r div dtype_size (out0 w) * dtype_size (out0 w)) bytes
     \<and> length (stream (out0 w')) = length (stream (out0 w))
          + nat r div dtype_size (out0 w) * dtype_size (out0 w)
     \<and> length bytes = nat r
     \<and> nat r - nat r div dtype_size (out0 w) * dtype_size (out0 w) = nat r mod dtype_size (out0 w)
     \<and> lookup_fd (kernel w) (m_fd b) = Some f
     \<and> lookup_fd (kernel w') (m_fd b) = Some (f\<lparr>ofd_offset := ofd_offset f + nat r\<rparr>)
     \<and> logger w' = logger w"
proof -
  note fr = sys_select_frame [OF sel]
  from fr have tab1: "fdtable k1 = fdtable (kernel w)" by simp
  from r have r0: "0 \<le> r" by simp
  from sys_read_nonneg [OF rd r0] obtain f where
    len: "length bytes = nat r" and
    f1: "lookup_fd k1 (m_fd b) = Some f" and
    tab2: "fdtable k2 = (fdtable k1)[nat (m_fd b) := Some (f\<lparr>ofd_offset := ofd_offset f + nat r\<rparr>)]"
    by blast
  from f1 lookup_fd_cong [OF tab1, of "m_fd b"]
  have f0: "lookup_fd (kernel w) (m_fd b) = Some f" by simp
  from lookup_fd_update [OF f1 tab2]
  have f2: "lookup_fd k2 (m_fd b) = Some (f\<lparr>ofd_offset := ofd_offset f + nat r\<rparr>)" .
  have le: "nat r div dtype_size (out0 w) * dtype_size (out0 w) \<le> length bytes"
    by (simp add: len)
  have md: "nat r - nat r div dtype_size (out0 w) * dtype_size (out0 w) = nat r mod dtype_size (out0 w)"
    by (simp add: minus_div_mult_eq_mod)
  from work_read [OF fs sel n rd] r sz le len md f0 f2 show ?thesis
    by (simp add: Let_def produce_def)
qed

theorem work_produce_witness:
  "FD_SET (m_fd (test_block 0 ''data.bin'' False)) FD_ZERO = Some [0]
   \<and> 0 < fst (sys_select (kernel (test_world [opened ''data.bin'' data_node 0]))
              (m_fd (test_block 0 ''data.bin'' False) + 1)
              [0]
              (cdiv (maxTimeoutNs (test_world [opened ''data.bin'' data_node 0])) 1000))
   \<and> fst (sys_read (snd (sys_select (kernel (test_world [opened ''data.bin'' data_node 0]))
              (m_fd (test_block 0 ''data.bin'' False) + 1)
              [0]
              (cdiv (maxTimeoutNs (test_world [opened ''data.bin'' data_node 0])) 1000)))
            (m_fd (test_block 0 ''data.bin'' False))
            (length (buffer (out0 (test_world [opened ''data.bin'' data_node 0]))))) = 10
   \<and> dtype_size (out0 (test_world [opened ''data.bin'' data_node 0])) = 4
   \<and> sched (snd (snd (work (test_block 0 ''data.bin'' False)
                 (test_world [opened ''data.bin'' data_node 0])))) = [Produce 2]
   \<and> stream (out0 (snd (snd (work (test_block 0 ''data.bin'' False)
                 (test_world [opened ''data.bin'' data_node 0])))))
       = [1, 2, 3, 4, 5, 6, 7, 8]
   \<and> lookup_fd (kernel (snd (snd (work (test_block 0 ''data.bin'' False)
                 (test_world [opened ''data.bin'' data_node 0]))))) 0
       = opened ''data.bin'' data_node 10"
proof -
  let ?b = "test_block 0 ''data.bin'' False"
  let ?w = "test_world [opened ''data.bin'' data_node 0]"
  let ?sel = "sys_select (kernel ?w) (m_fd ?b + 1) [0]
                (cdiv (maxTimeoutNs ?w) 1000)"
  let ?rd = "sys_read (snd ?sel) (m_fd ?b) (length (buffer (out0 ?w)))"
  have fs: "FD_SET (m_fd ?b) FD_ZERO = Some [0]" by (simp add: sys_defs test_defs)
  have h1: "0 < fst ?sel" by (simp add: sys_defs test_defs)
  have r: "fst ?rd = 10" by (simp add: sys_defs test_defs)
  then have h2: "0 < fst ?rd" by simp
  have h3: "0 < dtype_size (out0 ?w)" by (simp add: test_defs)
  have bytes: "fst (snd ?rd) = [1, 2, 3, 4, 5, 6, 7, 8, 9, 10]"
    by (simp add: sys_defs test_defs)
  have f: "lookup_fd (kernel ?w) (m_fd ?b) = opened ''data.bin'' data_node 0"
    by (simp add: sys_defs test_defs)
  from work_produce [OF fs prod.collapse [symmetric] h1 triple_collapse h2 h3]
  obtain w' f' where
    "work ?b ?w = (Returns, ?b, w')"
    "sched w' = sched ?w @ [Produce (nat (fst ?rd) div dtype_size (out0 ?w))]"
    "stream (out0 w') = stream (out0 ?w)
          @ take (nat (fst ?rd) div dtype_size (out0 ?w) * dtype_size (out0 ?w)) (fst (snd ?rd))"
    "lookup_fd (kernel ?w) (m_fd ?b) = Some f'"
    "lookup_fd (kernel w') (m_fd ?b) = Some (f'\<lparr>ofd_offset := ofd_offset f' + nat (fst ?rd)\<rparr>)"
    by blast
  with fs h1 r bytes f show ?thesis
    by (auto simp: test_defs)
qed



text \<open>
  C5. When the descriptor is ready and \<^verbatim>\<open>read\<close> fails (returns a negative value), the
  cycle produces nothing and logs one error with the return value, \<^verbatim>\<open>strerror(errno)\<close>
  and \<^verbatim>\<open>errno\<close>, where \<^verbatim>\<open>errno\<close> is the error the file gave. The handle is untouched:
  the block is unchanged, the descriptor is still open, and the only system calls are
  the \<^verbatim>\<open>select\<close> and the \<^verbatim>\<open>read\<close>.
\<close>

theorem work_read_failure:
  assumes fs: "FD_SET (m_fd b) FD_ZERO = Some rset"
      and sel: "sys_select (kernel w) (m_fd b + 1) rset
                  (cdiv (maxTimeoutNs w) 1000) = (n, k1)"
      and n: "0 < n"
      and rd: "sys_read k1 (m_fd b) (length (buffer (out0 w))) = (r, bytes, k2)"
      and r: "r < 0"
  shows "\<exists>f. work b w =
       (Returns, b,
        w\<lparr>kernel := k2,
          logger := logger w
            @ [Log_error ''BinaryFileSource'' ''read() returned %d -- %s(%d)''
                 [Num r, Str (strerror (errno k2)), Num (errno k2)]]\<rparr>)
     \<and> lookup_fd (kernel w) (m_fd b) = Some f
     \<and> read_errno (ofd_node f) = Some (errno k2)
     \<and> lookup_fd k2 (m_fd b) = Some f
     \<and> fdtable k2 = fdtable (kernel w)
     \<and> calls k2 = calls (kernel w)
          @ [Sys_select (m_fd b + 1) rset (cdiv (maxTimeoutNs w) 1000) n,
             Sys_read (m_fd b) (length (buffer (out0 w))) r]"
proof -
  note fr = sys_select_frame [OF sel]
  from fr have tab1: "fdtable k1 = fdtable (kernel w)" by simp
  from FD_SET_Some [OF fs] have rs: "rset = [m_fd b]" by simp
  from sys_select_positive [OF sel [unfolded rs] n] obtain f where
    f0: "lookup_fd (kernel w) (m_fd b) = Some f" by blast
  with lookup_fd_cong [OF tab1, of "m_fd b"] have f1: "lookup_fd k1 (m_fd b) = Some f"
    by simp
  note rn = sys_read_neg [OF rd r]
  from rn f1 have e: "read_errno (ofd_node f) = Some (errno k2)" by simp
  from rn tab1 have tab: "fdtable k2 = fdtable (kernel w)" by simp
  with f0 lookup_fd_cong [OF tab, of "m_fd b"] have f2: "lookup_fd k2 (m_fd b) = Some f" by simp
  from rn have empty: "bytes = []" by simp
  from fr rn have cs: "calls k2 = calls (kernel w)
          @ [Sys_select (m_fd b + 1) rset (cdiv (maxTimeoutNs w) 1000) n,
             Sys_read (m_fd b) (length (buffer (out0 w))) r]"
    by simp
  from work_read [OF fs sel n rd] r empty
  have "work b w =
       (Returns, b,
        w\<lparr>kernel := k2,
          logger := logger w
            @ [Log_error ''BinaryFileSource'' ''read() returned %d -- %s(%d)''
                 [Num r, Str (strerror (errno k2)), Num (errno k2)]]\<rparr>)"
    by (simp add: Let_def poco_error_def)
  with f0 e f2 tab cs show ?thesis by blast
qed

theorem work_read_failure_witness:
  "FD_SET (m_fd (test_block 0 ''dir'' False)) FD_ZERO = Some [0]
   \<and> 0 < fst (sys_select (kernel (test_world [opened ''dir'' dir_node 0]))
              (m_fd (test_block 0 ''dir'' False) + 1)
              [0]
              (cdiv (maxTimeoutNs (test_world [opened ''dir'' dir_node 0])) 1000))
   \<and> fst (sys_read (snd (sys_select (kernel (test_world [opened ''dir'' dir_node 0]))
              (m_fd (test_block 0 ''dir'' False) + 1)
              [0]
              (cdiv (maxTimeoutNs (test_world [opened ''dir'' dir_node 0])) 1000)))
            (m_fd (test_block 0 ''dir'' False))
            (length (buffer (out0 (test_world [opened ''dir'' dir_node 0]))))) < 0
   \<and> work (test_block 0 ''dir'' False) (test_world [opened ''dir'' dir_node 0])
       = (Returns, test_block 0 ''dir'' False,
          (test_world [opened ''dir'' dir_node 0])
            \<lparr>kernel := (test_os [opened ''dir'' dir_node 0])
                          \<lparr>errno := 21,
                            calls := [Sys_select 1 [0] 2 1, Sys_read 0 12 (- 1)]\<rparr>,
              logger := [Log_error ''BinaryFileSource'' ''read() returned %d -- %s(%d)''
                           [Num (- 1), Str ''Is a directory'', Num 21]]\<rparr>)"
proof -
  let ?b = "test_block 0 ''dir'' False"
  let ?w = "test_world [opened ''dir'' dir_node 0]"
  let ?sel = "sys_select (kernel ?w) (m_fd ?b + 1) [0]
                (cdiv (maxTimeoutNs ?w) 1000)"
  let ?rd = "sys_read (snd ?sel) (m_fd ?b) (length (buffer (out0 ?w)))"
  have fs: "FD_SET (m_fd ?b) FD_ZERO = Some [0]" by (simp add: sys_defs test_defs)
  have h1: "0 < fst ?sel" by (simp add: sys_defs test_defs)
  have r: "fst ?rd = - 1" by (simp add: sys_defs test_defs)
  then have h2: "fst ?rd < 0" by simp
  have k2: "snd (snd ?rd) = (test_os [opened ''dir'' dir_node 0])
                          \<lparr>errno := 21,
                            calls := [Sys_select 1 [0] 2 1, Sys_read 0 12 (- 1)]\<rparr>"
    by (simp add: sys_defs test_defs)
  from work_read_failure [OF fs prod.collapse [symmetric] h1 triple_collapse h2]
  have "work ?b ?w =
       (Returns, ?b,
        ?w\<lparr>kernel := snd (snd ?rd),
          logger := logger ?w
            @ [Log_error ''BinaryFileSource'' ''read() returned %d -- %s(%d)''
                 [Num (fst ?rd), Str (strerror (errno (snd (snd ?rd)))),
                  Num (errno (snd (snd ?rd)))]]\<rparr>)"
    by blast
  with fs h1 h2 show ?thesis
    unfolding k2 r by (simp add: strerror_def test_defs)
qed

section \<open>The lifecycle\<close>

text \<open>
  C6. \<^verbatim>\<open>activate\<close> throws exactly when the path is empty, and then it has changed
  nothing (a closed handle remains closed). With a non-empty path that cannot be opened
  it returns normally, the handle is \<open>-1\<close>, no descriptor was opened, and one error is
  logged with the path, the return value, \<^verbatim>\<open>strerror(errno)\<close> and \<^verbatim>\<open>errno\<close>. Otherwise
  the handle is a descriptor open on the path.
\<close>

theorem activate_errors:
  "((\<exists>e. fst (activate b w) = Throws e) \<longleftrightarrow> m_path b = [])
   \<and> fst (activate b w) \<noteq> Traps
   \<and> (if m_path b = []
       then activate b w
              = (Throws (FileException ''BinaryFileSource'' ''empty file path''), b, w)
       else if fst (openSourceFD (kernel w) (m_path b)) < 0
       then (\<exists>k'. activate b w =
               (Returns, b\<lparr>m_fd := - 1\<rparr>,
                w\<lparr>kernel := k',
                  logger := logger w
                    @ [Log_error ''BinaryFileSource'' ''open(%s) returned %d -- %s(%d)''
                         [Str (m_path b), Num (- 1), Str (strerror (errno k')),
                          Num (errno k')]]\<rparr>)
             \<and> fdtable k' = fdtable (kernel w)
             \<and> calls k' = calls (kernel w) @ [Sys_open (m_path b) (- 1)])
       else (\<exists>d k'. activate b w = (Returns, b\<lparr>m_fd := d\<rparr>, w\<lparr>kernel := k'\<rparr>)
             \<and> 0 \<le> d \<and> (\<exists>f. lookup_fd k' d = Some f \<and> ofd_path f = m_path b)))"
proof (cases "m_path b = []")
  case True
  then show ?thesis by (simp add: activate_empty)
next
  case False
  obtain d k' where op: "openSourceFD (kernel w) (m_path b) = (d, k')"
    by (cases "openSourceFD (kernel w) (m_path b)")
  show ?thesis
  proof (cases "d < 0")
    case True
    from op have op': "sys_open (kernel w) (m_path b) = (d, k')"
      by (simp add: openSourceFD_def)
    from activate_open_failed [OF False op True] sys_open_fail [OF op' True] False op True
    show ?thesis by auto
  next
    case nonneg: False
    then have d: "0 \<le> d" by simp
    from op have op': "sys_open (kernel w) (m_path b) = (d, k')"
      by (simp add: openSourceFD_def)
    from sys_open_ok [OF op' d] obtain f where
      "lookup_fd k' d = Some f" "ofd_path f = m_path b" by auto
    with activate_opened [OF False op d] False op nonneg d
    show ?thesis by auto
  qed
qed

theorem activate_errors_witness:
  "activate (test_block (- 1) [] False) (test_world [])
     = (Throws (FileException ''BinaryFileSource'' ''empty file path''),
        test_block (- 1) [] False, test_world [])
   \<and> fst (openSourceFD (kernel (test_world [])) ''nofile'') < 0
   \<and> activate (test_block (- 1) ''nofile'' False) (test_world [])
     = (Returns, test_block (- 1) ''nofile'' False,
        (test_world [])
          \<lparr>kernel := (test_os [])\<lparr>errno := 2, calls := [Sys_open ''nofile'' (- 1)]\<rparr>,
            logger := [Log_error ''BinaryFileSource'' ''open(%s) returned %d -- %s(%d)''
                         [Str ''nofile'', Num (- 1), Str ''No such file or directory'', Num 2]]\<rparr>)
   \<and> fst (activate (test_block (- 1) ''data.bin'' False) (test_world [])) = Returns
   \<and> m_fd (fst (snd (activate (test_block (- 1) ''data.bin'' False) (test_world [])))) = 0"
proof -
  have e: "m_path (test_block (- 1) [] False) = []" by (simp add: test_defs)
  have n: "m_path (test_block (- 1) ''nofile'' False) \<noteq> []"
    "m_path (test_block (- 1) ''data.bin'' False) \<noteq> []" by (simp_all add: test_defs)
  have o: "openSourceFD (kernel (test_world [])) (m_path (test_block (- 1) ''nofile'' False))
      = (- 1, (test_os [])\<lparr>errno := 2, calls := [Sys_open ''nofile'' (- 1)]\<rparr>)"
    by (simp add: sys_defs test_defs)
  have o2: "openSourceFD (kernel (test_world [])) (m_path (test_block (- 1) ''data.bin'' False))
      = (0, (test_os [opened ''data.bin'' data_node 0])\<lparr>calls := [Sys_open ''data.bin'' 0]\<rparr>)"
    by (simp add: sys_defs test_defs)
  from activate_errors [of "test_block (- 1) [] False" "test_world []"] e
  have 1: "activate (test_block (- 1) [] False) (test_world [])
     = (Throws (FileException ''BinaryFileSource'' ''empty file path''),
        test_block (- 1) [] False, test_world [])"
    by simp
  from activate_errors [of "test_block (- 1) ''nofile'' False" "test_world []"] n o
  have 2: "activate (test_block (- 1) ''nofile'' False) (test_world [])
     = (Returns, test_block (- 1) ''nofile'' False,
        (test_world [])
          \<lparr>kernel := (test_os [])\<lparr>errno := 2, calls := [Sys_open ''nofile'' (- 1)]\<rparr>,
            logger := [Log_error ''BinaryFileSource'' ''open(%s) returned %d -- %s(%d)''
                         [Str ''nofile'', Num (- 1), Str ''No such file or directory'', Num 2]]\<rparr>)"
    by (simp add: activate_def poco_error_def strerror_def test_defs)
  from activate_errors [of "test_block (- 1) ''data.bin'' False" "test_world []"] n o2
  have 3: "fst (activate (test_block (- 1) ''data.bin'' False) (test_world [])) = Returns
   \<and> m_fd (fst (snd (activate (test_block (- 1) ''data.bin'' False) (test_world [])))) = 0"
    by (simp add: activate_def test_defs)
  from 1 2 3 o show ?thesis by (simp add: test_defs)
qed

text \<open>
  C7. \<^verbatim>\<open>setFilePath(p)\<close> on an open handle (\<^verbatim>\<open>_fd != -1\<close>) first closes the old
  descriptor. Afterwards the path is \<open>p\<close>, and either the handle is a descriptor open on
  \<open>p\<close> at position 0, or the handle is \<open>-1\<close> and an error was reported: the exception for
  the empty path, or the logged failure of \<^verbatim>\<open>open\<close>.
\<close>

theorem setFilePath_reopens:
  assumes op: "m_fd b \<noteq> - 1"
      and run: "setFilePath p b w = (s, b', w')"
  shows "m_path b' = p \<and> m_rewind b' = m_rewind b
     \<and> (\<exists>r cs. calls (kernel w') = calls (kernel w) @ Sys_close (m_fd b) r # cs)
     \<and> ((s = Returns \<and> 0 \<le> m_fd b'
          \<and> (\<exists>f. lookup_fd (kernel w') (m_fd b') = Some f \<and> ofd_path f = p \<and> ofd_offset f = 0)
          \<and> logger w' = logger w)
        \<or> (m_fd b' = - 1
            \<and> (s = Throws (FileException ''BinaryFileSource'' ''empty file path'')
               \<or> s = Returns
                 \<and> (\<exists>e. logger w' = logger w
                       @ [Log_error ''BinaryFileSource'' ''open(%s) returned %d -- %s(%d)''
                            [Str p, Num (- 1), Str (strerror e), Num e]]))))"
proof -
  obtain r kc where cl: "sys_close (kernel w) (m_fd b) = (r, kc)"
    by (cases "sys_close (kernel w) (m_fd b)")
  note fc = sys_close_frame [OF cl]
  define b1 where "b1 = b\<lparr>m_path := p, m_fd := - 1\<rparr>"
  define w1 where "w1 = w\<lparr>kernel := kc\<rparr>"
  from setFilePath_open [OF op, of p w] cl run
  have act: "activate b1 w1 = (s, b', w')"
    by (simp add: b1_def w1_def)
  show ?thesis
  proof (cases "p = []")
    case True
    with act activate_empty [of b1 w1] fc show ?thesis
      by (auto simp: b1_def w1_def)
  next
    case False
    then have ne: "m_path b1 \<noteq> []" by (simp add: b1_def)
    obtain d k' where o: "openSourceFD (kernel w1) (m_path b1) = (d, k')"
      by (cases "openSourceFD (kernel w1) (m_path b1)")
    then have o': "sys_open kc p = (d, k')"
      by (simp add: openSourceFD_def b1_def w1_def)
    show ?thesis
    proof (cases "d < 0")
      case True
      from activate_open_failed [OF ne o True] act sys_open_fail [OF o' True] fc
      show ?thesis by (auto simp: b1_def w1_def)
    next
      case False
      then have d: "0 \<le> d" by simp
      from sys_open_ok [OF o' d] obtain nd where
        f: "lookup_fd k' d = Some \<lparr>ofd_path = p, ofd_node = nd, ofd_offset = 0\<rparr>"
        and cs: "calls k' = calls kc @ [Sys_open p d]"
        by blast
      from activate_opened [OF ne o d] act
      have res: "s = Returns" "b' = b1\<lparr>m_fd := d\<rparr>" "w' = w1\<lparr>kernel := k'\<rparr>"
        by simp_all
      with f cs fc d show ?thesis
        by (simp add: b1_def w1_def)
    qed
  qed
qed

theorem setFilePath_reopens_witness:
  "m_fd (test_block 0 ''data.bin'' False) \<noteq> - 1
   \<and> setFilePath ''pipe'' (test_block 0 ''data.bin'' False)
        (test_world [opened ''data.bin'' data_node 6])
       = (Returns, test_block 0 ''pipe'' False,
          (test_world [opened ''pipe'' quiet_node 0])
            \<lparr>kernel := (test_os [opened ''pipe'' quiet_node 0])
                          \<lparr>calls := [Sys_close 0 0, Sys_open ''pipe'' 0]\<rparr>\<rparr>)
   \<and> setFilePath ''nofile'' (test_block 0 ''data.bin'' False)
        (test_world [opened ''data.bin'' data_node 6])
       = (Returns, test_block (- 1) ''nofile'' False,
          (test_world [None])
            \<lparr>kernel := (test_os [None])
                          \<lparr>errno := 2, calls := [Sys_close 0 0, Sys_open ''nofile'' (- 1)]\<rparr>,
              logger := [Log_error ''BinaryFileSource'' ''open(%s) returned %d -- %s(%d)''
                           [Str ''nofile'', Num (- 1), Str ''No such file or directory'',
                            Num 2]]\<rparr>)
   \<and> setFilePath [] (test_block 0 ''data.bin'' False)
        (test_world [opened ''data.bin'' data_node 6])
       = (Throws (FileException ''BinaryFileSource'' ''empty file path''),
          test_block (- 1) [] False,
          (test_world [None])\<lparr>kernel := (test_os [None])\<lparr>calls := [Sys_close 0 0]\<rparr>\<rparr>)"
proof -
  let ?b = "test_block 0 ''data.bin'' False"
  let ?w = "test_world [opened ''data.bin'' data_node 6]"
  have h: "m_fd ?b \<noteq> - 1" by (simp add: test_defs)
  note t = setFilePath_reopens [OF h triple_collapse, of _ ?w]
  from t [of "''pipe''"] t [of "''nofile''"] t [of "[]"] h show ?thesis
    by (simp add: setFilePath_def deactivate_def activate_def and_then_def poco_error_def
          strerror_def sys_defs test_defs)
qed

text \<open>
  C8. \<^verbatim>\<open>deactivate\<close> always returns normally and leaves the handle at \<open>-1\<close>, with path
  and flag as they were and the old descriptor closed. A second call changes neither the
  block nor the open files nor the output, and on a block fresh from the constructor the
  call only makes \<^verbatim>\<open>close(-1)\<close> fail with \<^verbatim>\<open>EBADF\<close>.
\<close>

theorem deactivate_idempotent:
  assumes d1: "deactivate b w = (s1, b1, w1)"
      and d2: "deactivate b1 w1 = (s2, b2, w2)"
  shows "s1 = Returns \<and> s2 = Returns \<and> m_fd b1 = - 1 \<and> m_fd b2 = - 1 \<and> b2 = b1
     \<and> m_path b1 = m_path b \<and> m_rewind b1 = m_rewind b
     \<and> lookup_fd (kernel w1) (m_fd b) = None
     \<and> fdtable (kernel w2) = fdtable (kernel w1)
     \<and> files (kernel w2) = files (kernel w1)
     \<and> out0 w2 = out0 w1 \<and> sched w2 = sched w1 \<and> logger w2 = logger w1
     \<and> deactivate BinaryFileSource w
         = (Returns, BinaryFileSource,
            w\<lparr>kernel := (kernel w)\<lparr>errno := EBADF,
                   calls := calls (kernel w) @ [Sys_close (- 1) (- 1)]\<rparr>\<rparr>)"
proof -
  from d1 have s1: "s1 = Returns" and b1: "b1 = b\<lparr>m_fd := - 1\<rparr>"
    and w1: "w1 = w\<lparr>kernel := snd (sys_close (kernel w) (m_fd b))\<rparr>"
    by (simp_all add: deactivate_eq)
  have closed: "lookup_fd (kernel w1) (- 1) = None"
    by (simp add: lookup_fd_negative)
  from d2 b1 have s2: "s2 = Returns" and b2: "b2 = b1"
    and w2: "w2 = w1\<lparr>kernel := snd (sys_close (kernel w1) (- 1))\<rparr>"
    by (simp_all add: deactivate_eq)
  from w2 have k2: "kernel w2 = (kernel w1)\<lparr>errno := EBADF,
      calls := calls (kernel w1) @ [Sys_close (- 1) (- 1)]\<rparr>"
    by (simp add: sys_close_closed [OF closed])
  have gone: "lookup_fd (kernel w1) (m_fd b) = None"
    using sys_close_frame [of "kernel w" "m_fd b"] w1
    by (cases "sys_close (kernel w) (m_fd b)") simp
  have fresh: "deactivate BinaryFileSource w
         = (Returns, BinaryFileSource,
            w\<lparr>kernel := (kernel w)\<lparr>errno := EBADF,
                   calls := calls (kernel w) @ [Sys_close (- 1) (- 1)]\<rparr>\<rparr>)"
    by (simp add: deactivate_eq BinaryFileSource_def sys_close_closed lookup_fd_negative)
  from s1 s2 b1 b2 w2 k2 gone fresh show ?thesis by simp
qed

theorem deactivate_idempotent_witness:
  "deactivate (test_block 0 ''data.bin'' False) (test_world [opened ''data.bin'' data_node 6])
     = (Returns, test_block (- 1) ''data.bin'' False,
        (test_world [None])\<lparr>kernel := (test_os [None])\<lparr>calls := [Sys_close 0 0]\<rparr>\<rparr>)
   \<and> deactivate (test_block (- 1) ''data.bin'' False)
        ((test_world [None])\<lparr>kernel := (test_os [None])\<lparr>calls := [Sys_close 0 0]\<rparr>\<rparr>)
     = (Returns, test_block (- 1) ''data.bin'' False,
        (test_world [None])
          \<lparr>kernel := (test_os [None])
                        \<lparr>errno := 9, calls := [Sys_close 0 0, Sys_close (- 1) (- 1)]\<rparr>\<rparr>)"
proof -
  let ?b = "test_block 0 ''data.bin'' False"
  let ?w = "test_world [opened ''data.bin'' data_node 6]"
  have d1: "deactivate ?b ?w
     = (Returns, test_block (- 1) ''data.bin'' False,
        (test_world [None])\<lparr>kernel := (test_os [None])\<lparr>calls := [Sys_close 0 0]\<rparr>\<rparr>)"
    by (simp add: deactivate_def sys_defs test_defs)
  have d2: "deactivate (test_block (- 1) ''data.bin'' False)
        ((test_world [None])\<lparr>kernel := (test_os [None])\<lparr>calls := [Sys_close 0 0]\<rparr>\<rparr>)
     = (Returns, test_block (- 1) ''data.bin'' False,
        (test_world [None])
          \<lparr>kernel := (test_os [None])
                        \<lparr>errno := 9, calls := [Sys_close 0 0, Sys_close (- 1) (- 1)]\<rparr>\<rparr>)"
    by (simp add: deactivate_def sys_defs test_defs)
  from deactivate_idempotent [OF d1 d2] d1 d2 show ?thesis
    by simp
qed

text \<open>
  C9. \<^verbatim>\<open>activate\<close> with a non-empty path on a handle that is already open makes one
  system call, the \<^verbatim>\<open>open\<close>, and stores its result in \<^verbatim>\<open>_fd\<close>. The old descriptor is
  not closed: it is still open afterwards, next to the new one when the \<^verbatim>\<open>open\<close>
  succeeded, and it is still open after a following \<^verbatim>\<open>deactivate\<close>, which closes only
  the new one. So the block can own two open files, and the old one is leaked.
\<close>

theorem activate_twice_leaks:
  assumes ne: "m_path b \<noteq> []"
      and old: "lookup_fd (kernel w) (m_fd b) = Some f"
  shows "\<exists>d k'. openSourceFD (kernel w) (m_path b) = (d, k')
     \<and> fst (activate b w) = Returns
     \<and> fst (snd (activate b w)) = b\<lparr>m_fd := d\<rparr>
     \<and> kernel (snd (snd (activate b w))) = k'
     \<and> calls k' = calls (kernel w) @ [Sys_open (m_path b) d]
     \<and> lookup_fd k' (m_fd b) = Some f
     \<and> (d = - 1 \<or> (d \<noteq> m_fd b \<and> (\<exists>g. lookup_fd k' d = Some g \<and> ofd_path g = m_path b)))
     \<and> m_fd (fst (snd (and_then (activate b w) deactivate))) = - 1
     \<and> lookup_fd (kernel (snd (snd (and_then (activate b w) deactivate)))) (m_fd b) = Some f"
proof -
  obtain d k' where o: "openSourceFD (kernel w) (m_path b) = (d, k')"
    by (cases "openSourceFD (kernel w) (m_path b)")
  then have o': "sys_open (kernel w) (m_path b) = (d, k')"
    by (simp add: openSourceFD_def)
  from sys_open_keeps [OF o' old] have kept: "lookup_fd k' (m_fd b) = Some f" .
  from old have fd0: "0 \<le> m_fd b" by (simp add: lookup_fd_def split: if_splits)
  obtain r kc where cl: "sys_close k' d = (r, kc)"
    by (cases "sys_close k' d")
  have "fst (activate b w) = Returns
     \<and> fst (snd (activate b w)) = b\<lparr>m_fd := d\<rparr>
     \<and> kernel (snd (snd (activate b w))) = k'
     \<and> calls k' = calls (kernel w) @ [Sys_open (m_path b) d]
     \<and> lookup_fd k' (m_fd b) = Some f
     \<and> (d = - 1 \<or> (d \<noteq> m_fd b \<and> (\<exists>g. lookup_fd k' d = Some g \<and> ofd_path g = m_path b)))
     \<and> m_fd (fst (snd (and_then (activate b w) deactivate))) = - 1
     \<and> lookup_fd (kernel (snd (snd (and_then (activate b w) deactivate)))) (m_fd b) = Some f"
  proof (cases "d < 0")
    case True
    from sys_open_fail [OF o' True] have d1: "d = - 1"
      and cs: "calls k' = calls (kernel w) @ [Sys_open (m_path b) d]" by simp_all
    from fd0 True have neq: "m_fd b \<noteq> d" by simp
    from sys_close_other [OF cl neq] kept have after: "lookup_fd kc (m_fd b) = Some f" by simp
    note act = activate_open_failed [OF ne o True]
    have "and_then (activate b w) deactivate
        = (Returns, b\<lparr>m_fd := - 1\<rparr>,
           w\<lparr>kernel := kc,
          logger := logger w
            @ [Log_error ''BinaryFileSource'' ''open(%s) returned %d -- %s(%d)''
                 [Str (m_path b), Num (- 1), Str (strerror (errno k')), Num (errno k')]]\<rparr>)"
      using cl d1 by (simp add: act and_then_def deactivate_eq)
    with act cs kept d1 after show ?thesis
      by simp
  next
    case False
    then have d: "0 \<le> d" by simp
    from sys_open_ok [OF o' d] obtain g where
      g: "lookup_fd k' d = Some g" "ofd_path g = m_path b"
      and fresh: "lookup_fd (kernel w) d = None"
      and cs: "calls k' = calls (kernel w) @ [Sys_open (m_path b) d]"
      by auto
    from fresh old have neq: "m_fd b \<noteq> d" by auto
    from sys_close_other [OF cl neq] kept have after: "lookup_fd kc (m_fd b) = Some f" by simp
    note act = activate_opened [OF ne o d]
    have "and_then (activate b w) deactivate = (Returns, b\<lparr>m_fd := - 1\<rparr>, w\<lparr>kernel := kc\<rparr>)"
      using cl by (simp add: act and_then_def deactivate_eq)
    with act cs kept g neq after show ?thesis
      by auto
  qed
  with o show ?thesis by blast
qed

theorem activate_twice_leaks_witness:
  "m_path (test_block 0 ''data.bin'' False) \<noteq> []
   \<and> lookup_fd (kernel (test_world [opened ''data.bin'' data_node 6]))
        (m_fd (test_block 0 ''data.bin'' False)) = opened ''data.bin'' data_node 6
   \<and> activate (test_block 0 ''data.bin'' False) (test_world [opened ''data.bin'' data_node 6])
       = (Returns, test_block 1 ''data.bin'' False,
          (test_world [opened ''data.bin'' data_node 6, opened ''data.bin'' data_node 0])
            \<lparr>kernel := (test_os [opened ''data.bin'' data_node 6, opened ''data.bin'' data_node 0])
                          \<lparr>calls := [Sys_open ''data.bin'' 1]\<rparr>\<rparr>)
   \<and> and_then (activate (test_block 0 ''data.bin'' False)
                 (test_world [opened ''data.bin'' data_node 6])) deactivate
       = (Returns, test_block (- 1) ''data.bin'' False,
          (test_world [opened ''data.bin'' data_node 6, None])
            \<lparr>kernel := (test_os [opened ''data.bin'' data_node 6, None])
                          \<lparr>calls := [Sys_open ''data.bin'' 1, Sys_close 1 0]\<rparr>\<rparr>)"
proof -
  let ?b = "test_block 0 ''data.bin'' False"
  let ?w = "test_world [opened ''data.bin'' data_node 6]"
  have h1: "m_path ?b \<noteq> []" by (simp add: test_defs)
  have h2: "lookup_fd (kernel ?w) (m_fd ?b)
      = Some \<lparr>ofd_path = ''data.bin'', ofd_node = data_node, ofd_offset = 6\<rparr>"
    by (simp add: sys_defs test_defs)
  from activate_twice_leaks [OF h1 h2] h1 h2 show ?thesis
    by (simp add: activate_def deactivate_def and_then_def sys_defs test_defs)
qed

section \<open>What a work cycle leaves alone\<close>

text \<open>
  C10. Every work cycle leaves the block as it was: handle, path and auto-rewind flag,
  whatever the cycle did. Outside the block, the files are the same, the descriptor table
  differs at most in the position of the block's own descriptor, the element size and
  the timeout are the same, and the log is either the same or longer by the one message
  of a failed \<^verbatim>\<open>read\<close> (and then the output port and the scheduler saw nothing).
\<close>

theorem work_frame:
  assumes run: "work b w = (s, b', w')"
  shows "b' = b
     \<and> files (kernel w') = files (kernel w) \<and> fd_limit (kernel w') = fd_limit (kernel w)
     \<and> (fdtable (kernel w') = fdtable (kernel w)
         \<or> (\<exists>f off. lookup_fd (kernel w) (m_fd b) = Some f
               \<and> fdtable (kernel w')
                   = (fdtable (kernel w))[nat (m_fd b) := Some (f\<lparr>ofd_offset := off\<rparr>)]))
     \<and> dtype_size (out0 w') = dtype_size (out0 w) \<and> maxTimeoutNs w' = maxTimeoutNs w
     \<and> (logger w' = logger w
         \<or> (\<exists>r e. r < 0 \<and> sched w' = sched w \<and> out0 w' = out0 w
               \<and> logger w' = logger w
                    @ [Log_error ''BinaryFileSource'' ''read() returned %d -- %s(%d)''
                         [Num r, Str (strerror e), Num e]]))"
proof (cases "FD_SET (m_fd b) FD_ZERO")
  case None
  from work_undefined [OF None, of w] run show ?thesis by simp
next
  case (Some rset)
  note fs = Some
  obtain n k1 where sel: "sys_select (kernel w) (m_fd b + 1) rset
                  (cdiv (maxTimeoutNs w) 1000) = (n, k1)"
    by (cases "sys_select (kernel w) (m_fd b + 1) rset (cdiv (maxTimeoutNs w) 1000)")
  note fr = sys_select_frame [OF sel]
  from fr have tab1: "fdtable k1 = fdtable (kernel w)" by simp
  show ?thesis
  proof (cases "n \<le> 0")
    case True
    from work_yields [OF fs sel True] run fr show ?thesis by auto
  next
    case False
    then have n: "0 < n" by simp
    obtain r bytes k2 where rd: "sys_read k1 (m_fd b) (length (buffer (out0 w))) = (r, bytes, k2)"
      by (cases "sys_read k1 (m_fd b) (length (buffer (out0 w)))")
    note wr = work_read [OF fs sel n rd]
    consider (neg) "r < 0" | (zero) "r = 0" | (pos) "0 < r" by linarith
    then show ?thesis
    proof cases
      case neg
      from sys_read_neg [OF rd neg] have "bytes = []" "fdtable k2 = fdtable k1"
        "files k2 = files k1" by simp_all
      moreover from sys_read_frame [OF rd] have "fd_limit k2 = fd_limit k1" by simp
      ultimately show ?thesis using wr run neg fr
        by (auto simp: Let_def poco_error_def)
    next
      case zero
      from rd zero sys_read_zero [of k1 "m_fd b" "length (buffer (out0 w))" bytes k2]
      obtain f where f2: "lookup_fd k2 (m_fd b) = Some f" "bytes = []" "fdtable k2 = fdtable k1"
        "files k2 = files k1" by auto
      from sys_read_frame [OF rd] have lim: "fd_limit k2 = fd_limit k1" by simp
      from f2 tab1 lookup_fd_cong [of k2 "kernel w" "m_fd b"]
      have f0: "lookup_fd (kernel w) (m_fd b) = Some f" by simp
      show ?thesis
      proof (cases "m_rewind b")
        case True
        with wr run zero f2 lim fr f0 show ?thesis
          by (auto simp: Let_def produce_def sys_lseek_set_open [OF f2(1)] split: if_splits)
      next
        case False
        with wr run zero f2 lim fr show ?thesis
          by (auto simp: Let_def produce_def split: if_splits)
      qed
    next
      case pos
      then have r0: "0 \<le> r" by simp
      from sys_read_nonneg [OF rd r0] obtain f where
        f1: "lookup_fd k1 (m_fd b) = Some f" and
        tab2: "fdtable k2 = (fdtable k1)[nat (m_fd b) := Some (f\<lparr>ofd_offset := ofd_offset f + nat r\<rparr>)]"
        and fs: "files k2 = files k1"
        by blast
      from sys_read_frame [OF rd] have lim: "fd_limit k2 = fd_limit k1" by simp
      from f1 lookup_fd_cong [OF tab1, of "m_fd b"]
      have f0: "lookup_fd (kernel w) (m_fd b) = Some f" by simp
      from wr run pos tab2 fs lim fr f0 show ?thesis
        by (auto simp: Let_def produce_def split: if_splits)
    qed
  qed
qed

text \<open>
  The log is an effect of its own: on a directory the \<^verbatim>\<open>read\<close> fails, and the cycle
  changes neither the block, nor any file position, nor the output port, nor what the
  scheduler saw, and yet the log has grown.
\<close>

theorem work_logs_counterexample:
  "fst (snd (work (test_block 0 ''dir'' False) (test_world [opened ''dir'' dir_node 0])))
     = test_block 0 ''dir'' False
   \<and> fdtable (kernel (snd (snd (work (test_block 0 ''dir'' False)
                (test_world [opened ''dir'' dir_node 0])))))
     = fdtable (kernel (test_world [opened ''dir'' dir_node 0]))
   \<and> out0 (snd (snd (work (test_block 0 ''dir'' False) (test_world [opened ''dir'' dir_node 0]))))
     = out0 (test_world [opened ''dir'' dir_node 0])
   \<and> sched (snd (snd (work (test_block 0 ''dir'' False) (test_world [opened ''dir'' dir_node 0]))))
     = sched (test_world [opened ''dir'' dir_node 0])
   \<and> logger (snd (snd (work (test_block 0 ''dir'' False) (test_world [opened ''dir'' dir_node 0]))))
     \<noteq> logger (test_world [opened ''dir'' dir_node 0])"
  by (simp add: work_def poco_error_def sys_defs test_defs)

theorem work_frame_witness:
  "fst (snd (work (test_block 0 ''data.bin'' True) (test_world [opened ''data.bin'' data_node 4])))
     = test_block 0 ''data.bin'' True
   \<and> fdtable (kernel (snd (snd (work (test_block 0 ''data.bin'' True)
                 (test_world [opened ''data.bin'' data_node 4])))))
       = [opened ''data.bin'' data_node 10]
   \<and> logger (snd (snd (work (test_block 0 ''data.bin'' True)
                 (test_world [opened ''data.bin'' data_node 4])))) = []"
proof -
  let ?b = "test_block 0 ''data.bin'' True"
  let ?w = "test_world [opened ''data.bin'' data_node 4]"
  from work_frame [OF triple_collapse, of ?b ?w]
  have "fst (snd (work ?b ?w)) = ?b" by blast
  then show ?thesis
    by (simp add: work_def produce_def sys_defs test_defs)
qed

end
